theory Spec2Isabelle
  imports Complex_Main "HOL-Library.Multiset"
begin

section \<open>Eye detection service (app.py): data model\<close>

text \<open>
  The service is one Python module. Its external collaborators are libraries: PIL
  (image decoding, conversion, resizing), the TFLite interpreter, OpenCV (drawing and
  JPEG encoding), base64 and the temporary directory of the file system. They are the
  fields of the record \<open>env\<close> below or small definitions stating the library's
  documented behaviour; everything the module itself computes is translated from its text.

  Numbers. The tensors hold float32 values; they are modelled as rationals. The model
  so covers finite values (a NaN score never passes the threshold; an infinite value
  makes \<open>int()\<close> raise) and treats \<open>boxes[i][k] * imH\<close> as exact, where float32 rounds
  it; the rounding is monotone, and the values used in the examples below are dyadic
  fractions for which it is exact. The products \<open>confidence * 100\<close> (a float32 value times
  100, in double precision) and the halved sums of pixel coordinates are exact in the
  source as well, as long as the integers stay below \<open>2^53\<close>. Python integers are
  \<open>int\<close>. Pixel values are carried along but never inspected; what OpenCV draws is
  recorded as a list of drawing operations.
\<close>

type_synonym bytes = string

datatype error =
    UnidentifiedImageError  \<comment> \<open>PIL: \<open>Image.open\<close> cannot decode the bytes\<close>
  | IndexError              \<comment> \<open>an index out of range, of a Python list or a numpy array\<close>
  | InterpreterError        \<comment> \<open>the TFLite runtime refuses the tensor or fails to run\<close>
  | Base64Error             \<comment> \<open>\<open>binascii.Error\<close> of \<open>base64.b64decode\<close>\<close>

record pil_image =
  im_size :: "nat \<times> nat"   \<comment> \<open>PIL's \<open>size\<close>: (width, height)\<close>
  im_mode :: string
  im_data :: "nat list"

datatype draw_op =
    Rectangle "int \<times> int" "int \<times> int"
  | PutText string "int \<times> int"

record ndarray =
  shape :: "nat list"
  pixels :: "nat list"
  drawn :: "draw_op list"   \<comment> \<open>what OpenCV has drawn on the array so far, oldest first\<close>

record tensor =
  t_shape :: "nat list"
  t_data :: "rat list"

text \<open>The three output tensors read after \<open>invoke\<close>: boxes (rows of ymin, xmin, ymax,
  xmax), classes and scores.\<close>

type_synonym raw_output = "(rat \<times> rat \<times> rat \<times> rat) list \<times> rat list \<times> rat list"

record detection =
  object :: string
  confidence :: rat
  box :: "int list"   \<comment> \<open>\<open>[xmin, ymin, xmax, ymax]\<close>\<close>

text \<open>The temporary directory: the regular files in it, by path.\<close>

type_synonym fs = "string \<rightharpoonup> bytes"

record env =
  input_shape :: "nat list"      \<comment> \<open>\<open>input_details[0]['shape']\<close>: batch, height, width, channels\<close>
  labels :: "string list"        \<comment> \<open>the stripped lines of labelmap.txt\<close>
  image_open :: "bytes \<Rightarrow> pil_image option"
  convert_data :: "string \<Rightarrow> pil_image \<Rightarrow> nat list"
  resize_data :: "nat \<times> nat \<Rightarrow> pil_image \<Rightarrow> nat list"
  interpreter :: "tensor \<Rightarrow> error + raw_output"
  imencode :: "ndarray \<Rightarrow> bytes"
  b64decode :: "string \<Rightarrow> error + bytes"
  tempdir :: string

section \<open>Library operations\<close>

text \<open>\<open>Image.convert(mode)\<close> and \<open>Image.resize((width, height))\<close> return an image of the
  mode and of the size asked for; \<open>np.array\<close> of an image has shape (height, width,
  bands), without the last axis for a single band.\<close>

definition convert :: "env \<Rightarrow> string \<Rightarrow> pil_image \<Rightarrow> pil_image" where
  "convert e m im = im\<lparr>im_mode := m, im_data := convert_data e m im\<rparr>"

definition resize :: "env \<Rightarrow> nat \<times> nat \<Rightarrow> pil_image \<Rightarrow> pil_image" where
  "resize e sz im = im\<lparr>im_size := sz, im_data := resize_data e sz im\<rparr>"

definition bands :: "string \<Rightarrow> nat" where
  "bands m = (if m = ''RGB'' then 3 else if m = ''RGBA'' \<or> m = ''CMYK'' then 4
              else if m = ''LA'' then 2 else 1)"

definition np_array :: "pil_image \<Rightarrow> ndarray" where
  "np_array im =
     \<lparr>shape = (if bands (im_mode im) = 1 then [snd (im_size im), fst (im_size im)]
               else [snd (im_size im), fst (im_size im), bands (im_mode im)]),
      pixels = im_data im,
      drawn = []\<rparr>"

text \<open>Python's \<open>int(x)\<close> of a float truncates towards zero.\<close>

definition py_int :: "rat \<Rightarrow> int" where
  "py_int x = (if 0 \<le> x then \<lfloor>x\<rfloor> else \<lceil>x\<rceil>)"

text \<open>Indexing a Python list: a negative index counts from the end.\<close>

definition py_get :: "'a list \<Rightarrow> int \<Rightarrow> error + 'a" where
  "py_get xs k =
     (let n = int (length xs) in
      if 0 \<le> k \<and> k < n then Inr (xs ! nat k)
      else if - n \<le> k \<and> k < 0 then Inr (xs ! nat (n + k))
      else Inl IndexError)"

text \<open>Indexing a numpy array with a loop index (never negative).\<close>

definition np_get :: "'a list \<Rightarrow> nat \<Rightarrow> error + 'a" where
  "np_get xs i = (if i < length xs then Inr (xs ! i) else Inl IndexError)"

text \<open>\<open>str\<close> of an integer.\<close>

fun str_nat :: "nat \<Rightarrow> string" where
  "str_nat n =
     (if n < 10 then [''0123456789'' ! n]
      else str_nat (n div 10) @ [''0123456789'' ! (n mod 10)])"

declare str_nat.simps [simp del]

definition str_int :: "int \<Rightarrow> string" where
  "str_int k = (if k < 0 then CHR ''-'' # str_nat (nat (- k)) else str_nat (nat k))"

text \<open>\<open>sorted(xs, key=key, reverse=True)\<close>: the list is reversed, sorted stably by
  ascending key, and reversed again.\<close>

definition py_sorted_reverse :: "('a \<Rightarrow> rat) \<Rightarrow> 'a list \<Rightarrow> 'a list" where
  "py_sorted_reverse key xs = rev (sort_key key (rev xs))"

text \<open>\<open>os.path.join\<close> of two components and \<open>os.path.basename\<close>, on POSIX.\<close>

definition os_path_join :: "string \<Rightarrow> string \<Rightarrow> string" where
  "os_path_join a b =
     (if b \<noteq> [] \<and> hd b = CHR ''/'' then b
      else if a = [] \<or> last a = CHR ''/'' then a @ b
      else a @ ''/'' @ b)"

definition os_path_basename :: "string \<Rightarrow> string" where
  "os_path_basename p = rev (takeWhile (\<lambda>c. c \<noteq> CHR ''/'') (rev p))"

section \<open>preprocess_image\<close>

definition preprocess_image :: "env \<Rightarrow> bytes \<Rightarrow> nat list \<Rightarrow> error + ndarray" where
  "preprocess_image e img shp =
     (case image_open e img of
        None \<Rightarrow> Inl UnidentifiedImageError
      | Some im \<Rightarrow>
          let im = convert e ''RGB'' im;
              image_resized = resize e (shp ! 1, shp ! 2) im;
              image_np = np_array image_resized
          in Inr image_np)"

section \<open>tflite_detect_image\<close>

text \<open>\<open>np.expand_dims(image_np, axis=0).astype(np.float32)\<close>, normalised.\<close>

definition input_tensor :: "ndarray \<Rightarrow> tensor" where
  "input_tensor image_np =
     \<lparr>t_shape = 1 # shape image_np,
      t_data = map (\<lambda>v. (of_nat v - 1275 / 10) / (1275 / 10)) (pixels image_np)\<rparr>"

text \<open>The body of the loop over the scores, for an index that passed the threshold.\<close>

definition detection_at ::
  "string list \<Rightarrow> nat \<Rightarrow> nat \<Rightarrow> raw_output \<Rightarrow> nat \<Rightarrow> error + detection" where
  "detection_at lbls imH imW out i =
     (case out of (boxes, classes, scores) \<Rightarrow>
      (case np_get boxes i of
         Inl err \<Rightarrow> Inl err
       | Inr (b0, b1, b2, b3) \<Rightarrow>
          let ymin = py_int (max 1 (b0 * of_nat imH));
              xmin = py_int (max 1 (b1 * of_nat imW));
              ymax = py_int (min (of_nat imH) (b2 * of_nat imH));
              xmax = py_int (min (of_nat imW) (b3 * of_nat imW))
          in (case np_get classes i of
                Inl err \<Rightarrow> Inl err
              | Inr c \<Rightarrow>
                 (case py_get lbls (py_int c) of
                    Inl err \<Rightarrow> Inl err
                  | Inr object_name \<Rightarrow>
                      Inr \<lparr>object = object_name,
                           confidence = scores ! i,
                           box = [xmin, ymin, xmax, ymax]\<rparr>))))"

text \<open>The loop \<open>for i in range(len(scores))\<close>, run over the list of its indices with
  the detections appended so far.\<close>

fun collect ::
  "string list \<Rightarrow> nat \<Rightarrow> nat \<Rightarrow> rat \<Rightarrow> raw_output \<Rightarrow> nat list \<Rightarrow> detection list
     \<Rightarrow> error + detection list" where
  "collect lbls imH imW min_conf out [] detections = Inr detections"
| "collect lbls imH imW min_conf out (i # rest) detections =
     (if snd (snd out) ! i > min_conf then
        (case detection_at lbls imH imW out i of
           Inl err \<Rightarrow> Inl err
         | Inr d \<Rightarrow> collect lbls imH imW min_conf out rest (detections @ [d]))
      else collect lbls imH imW min_conf out rest detections)"

definition filter_detections ::
  "string list \<Rightarrow> nat \<Rightarrow> nat \<Rightarrow> rat \<Rightarrow> raw_output \<Rightarrow> error + detection list" where
  "filter_detections lbls imH imW min_conf out =
     collect lbls imH imW min_conf out [0..<length (snd (snd out))] []"

text \<open>The horizontal centre \<open>(d['box'][0] + d['box'][2]) / 2\<close>.\<close>

definition center :: "detection \<Rightarrow> rat" where
  "center d = of_int (box d ! 0 + box d ! 2) / 2"

text \<open>The relabelling of one or two detections by position.\<close>

definition disambiguate :: "nat \<Rightarrow> detection list \<Rightarrow> detection list" where
  "disambiguate imW detections =
     (if length detections = 2 then
        (let centers = map center detections in
         if centers ! 0 < centers ! 1 then
           (detections[0 := (detections ! 0)\<lparr>object := ''left_eye''\<rparr>])
                      [1 := (detections ! 1)\<lparr>object := ''right_eye''\<rparr>]
         else
           (detections[0 := (detections ! 0)\<lparr>object := ''right_eye''\<rparr>])
                      [1 := (detections ! 1)\<lparr>object := ''left_eye''\<rparr>])
      else if length detections = 1 then
        (let center_x = center (detections ! 0) in
         if center_x < of_nat imW / 2 then
           detections[0 := (detections ! 0)\<lparr>object := ''left_eye''\<rparr>]
         else
           detections[0 := (detections ! 0)\<lparr>object := ''right_eye''\<rparr>])
      else detections)"

text \<open>The text drawn for a detection, and the drawing loop.\<close>

definition label_text :: "detection \<Rightarrow> string" where
  "label_text d = object d @ '': '' @ str_int (py_int (confidence d * 100)) @ ''%''"

definition draw :: "detection \<Rightarrow> ndarray \<Rightarrow> ndarray" where
  "draw d image_np =
     (let xmin = box d ! 0; ymin = box d ! 1; xmax = box d ! 2; ymax = box d ! 3;
          image_np = image_np\<lparr>drawn := drawn image_np @ [Rectangle (xmin, ymin) (xmax, ymax)]\<rparr>;
          label = label_text d
      in image_np\<lparr>drawn := drawn image_np @ [PutText label (xmin, ymin - 10)]\<rparr>)"

definition draw_detections :: "detection list \<Rightarrow> ndarray \<Rightarrow> ndarray" where
  "draw_detections detections image_np = fold draw detections image_np"

text \<open>
  \<open>tflite_detect_image\<close>. The argument \<open>rnd\<close> is the random part of the name that
  \<open>NamedTemporaryFile\<close> settles on; the file system is passed in and returned. Every
  exception of the function is raised before the file is created.
\<close>

definition tflite_detect_image ::
  "env \<Rightarrow> fs \<Rightarrow> string \<Rightarrow> bytes \<Rightarrow> rat \<Rightarrow> error + ((detection list \<times> string) \<times> fs)" where
  "tflite_detect_image e files rnd image_data min_conf =
     (case preprocess_image e image_data (input_shape e) of
        Inl err \<Rightarrow> Inl err
      | Inr image_np \<Rightarrow>
         (case interpreter e (input_tensor image_np) of
            Inl err \<Rightarrow> Inl err
          | Inr out \<Rightarrow>
             let imH = shape image_np ! 0; imW = shape image_np ! 1 in
             (case filter_detections (labels e) imH imW min_conf out of
                Inl err \<Rightarrow> Inl err
              | Inr detections \<Rightarrow>
                 let detections = py_sorted_reverse confidence detections;
                     detections = disambiguate imW detections;
                     image_np = draw_detections detections image_np;
                     temp_file_path = os_path_join (tempdir e) (''tmp'' @ rnd @ ''.jpg'')
                 in Inr ((detections, temp_file_path),
                         files(temp_file_path \<mapsto> imencode e image_np)))))"

section \<open>The HTTP handlers\<close>

record request =
  json :: "string \<rightharpoonup> string"   \<comment> \<open>the JSON object of the body, by field\<close>
  host :: string

datatype body =
    Error_json string
  | Detect_json "detection list" string
  | File_body bytes string

type_synonym response = "body \<times> nat"

text \<open>\<open>detect\<close>: \<open>Inl\<close> is an exception that leaves the view function. The single task
  handed to the thread pool is awaited at once, and \<open>future.result()\<close> raises what the
  task raised.\<close>

definition detect :: "env \<Rightarrow> fs \<Rightarrow> string \<Rightarrow> request \<Rightarrow> (error + response) \<times> fs" where
  "detect e files rnd req =
     (case json req ''image'' of
        None \<Rightarrow> (Inr (Error_json ''No image part'', 400), files)
      | Some encoded \<Rightarrow>
         (case b64decode e encoded of
            Inl err \<Rightarrow> (Inl err, files)
          | Inr image_data \<Rightarrow>
             if image_data = [] then (Inr (Error_json ''No selected image'', 400), files)
             else
               (let min_conf_threshold = 1 / 2 in
                case tflite_detect_image e files rnd image_data min_conf_threshold of
                  Inl err \<Rightarrow> (Inl err, files)
                | Inr ((detections, temp_image_path), files') \<Rightarrow>
                    (Inr (Detect_json detections
                            (''http://'' @ host req @ ''/image/''
                               @ os_path_basename temp_image_path), 200),
                     files'))))"

text \<open>Flask answers an exception that leaves a view function with status 500.\<close>

definition http_status :: "error + response \<Rightarrow> nat" where
  "http_status r = (case r of Inl err \<Rightarrow> 500 | Inr (b, status) \<Rightarrow> status)"

text \<open>\<open>get_image\<close>: \<open>send_file\<close> opens the file, \<open>os.remove\<close> unlinks it, and the
  response carries the content the file had.\<close>

definition get_image :: "env \<Rightarrow> fs \<Rightarrow> string \<Rightarrow> response \<times> fs" where
  "get_image e files filename =
     (let file_path = os_path_join (tempdir e) filename in
      case files file_path of
        None \<Rightarrow> ((Error_json ''File not found'', 404), files)
      | Some content \<Rightarrow> ((File_body content ''image/jpeg'', 200), files(file_path := None)))"

section \<open>Concrete inputs\<close>

text \<open>The detections of a result, and a small installation used to run the functions on
  concrete inputs: the only decodable image is the byte string \<open>IMG\<close> (a 640 by 480
  greyscale picture), the interpreter answers every tensor with the given output, and the
  encoder writes the drawn texts.\<close>

definition result_detections ::
  "error + ((detection list \<times> string) \<times> fs) \<Rightarrow> error + detection list" where
  "result_detections r = (case r of Inl err \<Rightarrow> Inl err | Inr ((ds, p), files) \<Rightarrow> Inr ds)"

fun op_text :: "draw_op \<Rightarrow> string" where
  "op_text (Rectangle p q) = []"
| "op_text (PutText s p) = s"

definition test_env :: "nat list \<Rightarrow> string list \<Rightarrow> raw_output \<Rightarrow> env" where
  "test_env shp lbls out =
     \<lparr>input_shape = shp,
      labels = lbls,
      image_open = (\<lambda>b. if b = ''IMG''
                         then Some \<lparr>im_size = (640, 480), im_mode = ''L'', im_data = []\<rparr>
                         else None),
      convert_data = (\<lambda>m im. []),
      resize_data = (\<lambda>sz im. []),
      interpreter = (\<lambda>t. Inr out),
      imencode = (\<lambda>a. concat (map op_text (drawn a))),
      b64decode = (\<lambda>s. if s = ''SU1H'' then Inr ''IMG''
                        else if s = ''aGVsbG8='' then Inr ''hello''
                        else if s = [] then Inr []
                        else Inl Base64Error),
      tempdir = ''/tmp''\<rparr>"

text \<open>A detection without its label: the part that the relabelling leaves alone.\<close>

definition unlabelled :: "detection \<Rightarrow> rat \<times> int list" where
  "unlabelled d = (confidence d, box d)"

text \<open>The file that a successful call has written.\<close>

definition result_file :: "error + ((detection list \<times> string) \<times> fs) \<Rightarrow> bytes option" where
  "result_file r = (case r of Inl err \<Rightarrow> None | Inr ((ds, p), files) \<Rightarrow> files p)"

text \<open>The text of a label as the specification words it, with the percentage rounded to
  the nearest integer; \<open>label_text\<close> above is the one the code draws.\<close>

definition spec_label_text :: "detection \<Rightarrow> string" where
  "spec_label_text d = object d @ '': '' @ str_int (round (confidence d * 100)) @ ''%''"

section \<open>The filtering loop\<close>

lemma py_int_mono: "x \<le> y \<Longrightarrow> py_int x \<le> py_int y"
  unfolding py_int_def
  by (auto intro: floor_mono ceiling_mono)
     (metis ceiling_le_zero zero_le_floor linorder_linear dual_order.trans)

lemma py_int_max1: "1 \<le> py_int (max 1 x)"
  unfolding py_int_def by (auto simp: max_def le_floor_iff)

lemma py_int_min: "py_int (min (of_nat n) x) \<le> int n"
  unfolding py_int_def by (auto simp: min_def floor_le_iff ceiling_le_iff)

lemma np_get_error: "np_get xs i = Inl err \<Longrightarrow> err = IndexError"
  by (simp add: np_get_def split: if_splits)

lemma py_get_error: "py_get xs k = Inl err \<Longrightarrow> err = IndexError"
  by (simp add: py_get_def Let_def split: if_splits)

lemma detection_at_error: "detection_at lbls imH imW out i = Inl err \<Longrightarrow> err = IndexError"
  unfolding detection_at_def
  by (auto simp: Let_def split: prod.splits sum.splits dest: np_get_error py_get_error)

lemma detection_at_Inr:
  assumes "detection_at lbls imH imW (boxes, classes, scores) i = Inr d"
  shows "i < length boxes \<and> i < length classes
    \<and> py_get lbls (py_int (classes ! i)) = Inr (object d)
    \<and> confidence d = scores ! i
    \<and> box d = (case boxes ! i of (b0, b1, b2, b3) \<Rightarrow>
         [py_int (max 1 (b1 * of_nat imW)), py_int (max 1 (b0 * of_nat imH)),
          py_int (min (of_nat imW) (b3 * of_nat imW)), py_int (min (of_nat imH) (b2 * of_nat imH))])"
  using assms unfolding detection_at_def np_get_def
  by (auto simp: Let_def split: prod.splits sum.splits if_splits)

lemma collect_error:
  "collect lbls imH imW min_conf out idx acc = Inl err \<Longrightarrow> err = IndexError"
  by (induction idx arbitrary: acc)
     (auto split: if_splits sum.splits dest: detection_at_error)

lemma collect_Inr:
  "collect lbls imH imW min_conf out idx acc = Inr ds \<Longrightarrow>
   \<exists>new. ds = acc @ new \<and>
     list_all2 (\<lambda>i d. detection_at lbls imH imW out i = Inr d)
       (filter (\<lambda>i. min_conf < snd (snd out) ! i) idx) new"
proof (induction idx arbitrary: acc)
  case Nil
  then show ?case by simp
next
  case (Cons i rest)
  show ?case
  proof (cases "min_conf < snd (snd out) ! i")
    case False
    with Cons show ?thesis by simp
  next
    case True
    with Cons.prems obtain d where d: "detection_at lbls imH imW out i = Inr d"
      and rest: "collect lbls imH imW min_conf out rest (acc @ [d]) = Inr ds"
      by (auto split: sum.splits)
    from Cons.IH[OF rest] obtain new where
      "ds = (acc @ [d]) @ new"
      "list_all2 (\<lambda>i d. detection_at lbls imH imW out i = Inr d)
         (filter (\<lambda>i. min_conf < snd (snd out) ! i) rest) new"
      by blast
    with True d show ?thesis
      by (intro exI[of _ "d # new"]) simp
  qed
qed

lemma list_all2_left_witness:
  "list_all2 P xs ys \<Longrightarrow> x \<in> set xs \<Longrightarrow> \<exists>y\<in>set ys. P x y"
  by (induction rule: list_all2_induct) auto

lemma list_all2_right_witness:
  "list_all2 P xs ys \<Longrightarrow> y \<in> set ys \<Longrightarrow> \<exists>x\<in>set xs. P x y"
  by (induction rule: list_all2_induct) auto

lemma collect_fails:
  assumes "i \<in> set idx" "min_conf < snd (snd out) ! i"
    "detection_at lbls imH imW out i = Inl err"
  shows "collect lbls imH imW min_conf out idx acc = Inl IndexError"
proof (cases "collect lbls imH imW min_conf out idx acc")
  case (Inl e)
  from collect_error[OF Inl] Inl show ?thesis by simp
next
  case (Inr ds)
  from collect_Inr[OF Inr] obtain new where new:
    "list_all2 (\<lambda>i d. detection_at lbls imH imW out i = Inr d)
       (filter (\<lambda>i. min_conf < snd (snd out) ! i) idx) new" by blast
  have mem: "i \<in> set (filter (\<lambda>i. min_conf < snd (snd out) ! i) idx)"
    using assms by simp
  from list_all2_left_witness[OF new mem]
  obtain d where "detection_at lbls imH imW out i = Inr d" by blast
  with assms(3) show ?thesis by simp
qed

lemma collect_succeeds:
  "\<forall>i\<in>set idx. min_conf < snd (snd out) ! i \<longrightarrow> (\<exists>d. detection_at lbls imH imW out i = Inr d) \<Longrightarrow>
   \<exists>ds. collect lbls imH imW min_conf out idx acc = Inr ds"
  by (induction idx arbitrary: acc) (auto split: sum.splits)

section \<open>The sort\<close>

lemma set_py_sorted_reverse: "set (py_sorted_reverse key xs) = set xs"
  by (simp add: py_sorted_reverse_def)

lemma length_py_sorted_reverse: "length (py_sorted_reverse key xs) = length xs"
  by (simp add: py_sorted_reverse_def)

lemma mset_py_sorted_reverse: "mset (py_sorted_reverse key xs) = mset xs"
  by (simp add: py_sorted_reverse_def)

lemma sorted_py_sorted_reverse:
  "sorted_wrt (\<lambda>a b. key b \<le> key a) (py_sorted_reverse key xs)"
proof -
  have "sorted (map key (sort_key key (rev xs)))" by (rule sorted_sort_key)
  then have "sorted_wrt (\<lambda>a b. key a \<le> key b) (sort_key key (rev xs))"
    by (simp add: sorted_map)
  then show ?thesis
    by (simp add: py_sorted_reverse_def sorted_wrt_rev)
qed

lemma stable_py_sorted_reverse:
  "filter (\<lambda>x. key x = k) (py_sorted_reverse key xs) = filter (\<lambda>x. key x = k) xs"
proof -
  have "filter (\<lambda>x. key x = k) (sort_key key (rev xs)) = filter (\<lambda>x. key x = k) (rev xs)"
    by (rule sort_key_stable)
  then show ?thesis
    by (simp add: py_sorted_reverse_def rev_filter[symmetric])
qed

section \<open>The relabelling\<close>

lemma length2E: "length xs = 2 \<Longrightarrow> \<exists>a b. xs = [a, b]"
  by (cases xs; cases "tl xs") auto

lemma length1E: "length xs = Suc 0 \<Longrightarrow> \<exists>a. xs = [a]"
  by (cases xs) auto

lemma length_disambiguate: "length (disambiguate imW ds) = length ds"
  by (simp add: disambiguate_def Let_def)

lemma disambiguate_confidence: "map confidence (disambiguate imW ds) = map confidence ds"
proof (cases "length ds = 2")
  case True
  then obtain a b where "ds = [a, b]" using length2E by blast
  then show ?thesis by (simp add: disambiguate_def Let_def)
next
  case False
  show ?thesis
  proof (cases "length ds = 1")
    case True
    then obtain a where "ds = [a]" using length1E by auto
    then show ?thesis by (simp add: disambiguate_def Let_def)
  next
    case False
    with \<open>length ds \<noteq> 2\<close> show ?thesis by (simp add: disambiguate_def)
  qed
qed

lemma disambiguate_box: "map box (disambiguate imW ds) = map box ds"
proof (cases "length ds = 2")
  case True
  then obtain a b where "ds = [a, b]" using length2E by blast
  then show ?thesis by (simp add: disambiguate_def Let_def)
next
  case False
  show ?thesis
  proof (cases "length ds = 1")
    case True
    then obtain a where "ds = [a]" using length1E by auto
    then show ?thesis by (simp add: disambiguate_def Let_def)
  next
    case False
    with \<open>length ds \<noteq> 2\<close> show ?thesis by (simp add: disambiguate_def)
  qed
qed

section \<open>The whole function\<close>

lemma preprocess_image_shape:
  "preprocess_image e img shp = Inr image_np \<Longrightarrow> shape image_np = [shp ! 2, shp ! 1, 3]"
  by (auto simp: preprocess_image_def convert_def resize_def np_array_def bands_def Let_def
      split: option.splits)

lemma tflite_detect_image_Inr:
  assumes "tflite_detect_image e files rnd img min_conf = Inr ((dets, path), files')"
  shows "\<exists>image_np out kept.
      preprocess_image e img (input_shape e) = Inr image_np
    \<and> interpreter e (input_tensor image_np) = Inr out
    \<and> filter_detections (labels e) (shape image_np ! 0) (shape image_np ! 1) min_conf out = Inr kept
    \<and> dets = disambiguate (shape image_np ! 1) (py_sorted_reverse confidence kept)
    \<and> path = os_path_join (tempdir e) (''tmp'' @ rnd @ ''.jpg'')
    \<and> files' = files(path \<mapsto> imencode e (draw_detections dets image_np))"
  using assms unfolding tflite_detect_image_def
  by (auto simp: Let_def split: sum.splits)

lemma disambiguate_unlabelled: "map unlabelled (disambiguate imW ds) = map unlabelled ds"
proof -
  have "map unlabelled xs = map (\<lambda>(c, b). (c, b)) (zip (map confidence xs) (map box xs))" for xs
    by (induction xs) (simp_all add: unlabelled_def)
  then show ?thesis
    by (simp only: disambiguate_confidence disambiguate_box)
qed

lemma map_eq_set_witness:
  "map f xs = map f ys \<Longrightarrow> x \<in> set xs \<Longrightarrow> \<exists>y\<in>set ys. f x = f y"
proof -
  assume eq: "map f xs = map f ys" and x: "x \<in> set xs"
  have "f x \<in> set (map f xs)" using x by simp
  then have "f x \<in> set (map f ys)" using eq by simp
  then show ?thesis by auto
qed

lemma filter_detections_kept:
  assumes "filter_detections lbls imH imW min_conf (boxes, classes, scores) = Inr kept"
    and "d \<in> set kept"
  shows "\<exists>i<length scores. min_conf < scores ! i
           \<and> detection_at lbls imH imW (boxes, classes, scores) i = Inr d"
proof -
  from collect_Inr[OF assms(1)[unfolded filter_detections_def]]
  have all2: "list_all2 (\<lambda>i d. detection_at lbls imH imW (boxes, classes, scores) i = Inr d)
       (filter (\<lambda>i. min_conf < scores ! i) [0..<length scores]) kept"
    by simp
  from list_all2_right_witness[OF all2 assms(2)] show ?thesis by auto
qed

lemma dets_from_kept:
  assumes "tflite_detect_image e files rnd img min_conf = Inr ((dets, path), files')"
    and "preprocess_image e img (input_shape e) = Inr image_np"
    and "interpreter e (input_tensor image_np) = Inr out"
    and "d \<in> set dets"
  shows "\<exists>d' kept. filter_detections (labels e) (shape image_np ! 0) (shape image_np ! 1) min_conf out = Inr kept
     \<and> d' \<in> set kept \<and> unlabelled d = unlabelled d'"
proof -
  from tflite_detect_image_Inr[OF assms(1)] assms(2,3) obtain kept where
    kept: "filter_detections (labels e) (shape image_np ! 0) (shape image_np ! 1) min_conf out = Inr kept"
    and dets: "dets = disambiguate (shape image_np ! 1) (py_sorted_reverse confidence kept)"
    by auto
  have "map unlabelled dets = map unlabelled (py_sorted_reverse confidence kept)"
    unfolding dets by (rule disambiguate_unlabelled)
  from map_eq_set_witness[OF this assms(4)]
  obtain d' where "d' \<in> set kept" "unlabelled d = unlabelled d'"
    by (auto simp: set_py_sorted_reverse)
  with kept show ?thesis by blast
qed

section \<open>Pixel boxes\<close>

lemma detection_at_bounds:
  assumes "detection_at lbls imH imW (boxes, classes, scores) i = Inr d"
  shows "1 \<le> box d ! 0 \<and> box d ! 2 \<le> int imW \<and> 1 \<le> box d ! 1 \<and> box d ! 3 \<le> int imH"
proof -
  obtain b0 b1 b2 b3 where b: "boxes ! i = (b0, b1, b2, b3)" by (cases "boxes ! i") auto
  from detection_at_Inr[OF assms] b have
    "box d = [py_int (max 1 (b1 * of_nat imW)), py_int (max 1 (b0 * of_nat imH)),
              py_int (min (of_nat imW) (b3 * of_nat imW)), py_int (min (of_nat imH) (b2 * of_nat imH))]"
    by simp
  then show ?thesis by (simp add: py_int_max1 py_int_min)
qed

lemma detection_at_ordered:
  assumes "detection_at lbls imH imW (boxes, classes, scores) i = Inr d"
    and "case boxes ! i of (y1, x1, y2, x2) \<Rightarrow>
           x1 \<le> x2 \<and> x1 \<le> 1 \<and> 1 \<le> x2 * of_nat imW \<and>
           y1 \<le> y2 \<and> y1 \<le> 1 \<and> 1 \<le> y2 * of_nat imH"
  shows "box d ! 0 \<le> box d ! 2 \<and> box d ! 1 \<le> box d ! 3"
proof -
  obtain b0 b1 b2 b3 where b: "boxes ! i = (b0, b1, b2, b3)" by (cases "boxes ! i") auto
  from detection_at_Inr[OF assms(1)] b have bx:
    "box d = [py_int (max 1 (b1 * of_nat imW)), py_int (max 1 (b0 * of_nat imH)),
              py_int (min (of_nat imW) (b3 * of_nat imW)), py_int (min (of_nat imH) (b2 * of_nat imH))]"
    by simp
  from assms(2) b have h: "b1 \<le> b3" "b1 \<le> 1" "1 \<le> b3 * of_nat imW"
    "b0 \<le> b2" "b0 \<le> 1" "1 \<le> b2 * of_nat imH" by simp_all
  have W: "(0::rat) \<le> of_nat imW" and H: "(0::rat) \<le> of_nat imH" by simp_all
  have x1: "b1 * of_nat imW \<le> b3 * of_nat imW" using h(1) W by (rule mult_right_mono)
  have x2: "b1 * of_nat imW \<le> of_nat imW" using mult_right_mono[OF h(2) W] by simp
  have "imW \<noteq> 0" using h(3) by (cases "imW = 0") auto
  then have x3: "(1::rat) \<le> of_nat imW" by (cases imW) auto
  have "imH \<noteq> 0" using h(6) by (cases "imH = 0") auto
  then have y3: "(1::rat) \<le> of_nat imH" by (cases imH) auto
  have y1: "b0 * of_nat imH \<le> b2 * of_nat imH" using h(4) H by (rule mult_right_mono)
  have y2: "b0 * of_nat imH \<le> of_nat imH" using mult_right_mono[OF h(5) H] by simp
  have "max 1 (b1 * of_nat imW) \<le> min (of_nat imW) (b3 * of_nat imW)"
    using x1 x2 x3 h(3) by simp
  then have X: "py_int (max 1 (b1 * of_nat imW)) \<le> py_int (min (of_nat imW) (b3 * of_nat imW))"
    by (rule py_int_mono)
  have "max 1 (b0 * of_nat imH) \<le> min (of_nat imH) (b2 * of_nat imH)"
    using y1 y2 y3 h(6) by simp
  then have Y: "py_int (max 1 (b0 * of_nat imH)) \<le> py_int (min (of_nat imH) (b2 * of_nat imH))"
    by (rule py_int_mono)
  from X Y show ?thesis by (simp add: bx)
qed

section \<open>Evaluation on concrete inputs\<close>

lemmas eval_defs = result_detections_def tflite_detect_image_def test_env_def preprocess_image_def
  convert_def resize_def np_array_def bands_def input_tensor_def filter_detections_def
  detection_at_def np_get_def py_get_def py_int_def py_sorted_reverse_def disambiguate_def
  center_def draw_detections_def draw_def label_text_def os_path_join_def Let_def

lemma floor_rat_numeral_div:
  "\<lfloor>(numeral a :: rat) / numeral b\<rfloor> = numeral a div numeral b"
  by (metis floor_divide_of_int_eq of_int_numeral)

section \<open>C1: confidence and box bounds of the kept detections\<close>

lemma result_detections_Inr:
  "result_detections r = Inr ds \<Longrightarrow> \<exists>p files'. r = Inr ((ds, p), files')"
  by (auto simp: result_detections_def split: sum.splits prod.splits)

text \<open>
  C1 (as amended). Every detection that \<open>tflite_detect_image\<close> returns has a confidence
  strictly above \<open>min_conf\<close>, \<open>xmin\<close> and \<open>ymin\<close> at least 1, \<open>xmax\<close> at most the width
  and \<open>ymax\<close> at most the height of the resized image. The orderings
  \<open>xmin \<le> xmax\<close> and \<open>ymin \<le> ymax\<close> hold when every raw box above the threshold has
  its corners in order, its near corner at most 1 and its far corner at least one pixel
  into the image.
\<close>

theorem kept_detection_bounds:
  assumes run: "result_detections (tflite_detect_image e files rnd img min_conf) = Inr dets"
    and pre: "preprocess_image e img (input_shape e) = Inr image_np"
    and out: "interpreter e (input_tensor image_np) = Inr (boxes, classes, scores)"
    and d: "d \<in> set dets"
  shows "min_conf < confidence d
    \<and> 1 \<le> box d ! 0 \<and> box d ! 2 \<le> int (shape image_np ! 1)
    \<and> 1 \<le> box d ! 1 \<and> box d ! 3 \<le> int (shape image_np ! 0)
    \<and> ((\<forall>i<length scores. min_conf < scores ! i \<longrightarrow>
           (case boxes ! i of (y1, x1, y2, x2) \<Rightarrow>
              x1 \<le> x2 \<and> x1 \<le> 1 \<and> 1 \<le> x2 * of_nat (shape image_np ! 1) \<and>
              y1 \<le> y2 \<and> y1 \<le> 1 \<and> 1 \<le> y2 * of_nat (shape image_np ! 0)))
         \<longrightarrow> box d ! 0 \<le> box d ! 2 \<and> box d ! 1 \<le> box d ! 3)"
proof -
  from result_detections_Inr[OF run] obtain p files' where
    r: "tflite_detect_image e files rnd img min_conf = Inr ((dets, p), files')" by blast
  from dets_from_kept[OF r pre out d] obtain d' kept where
    kept: "filter_detections (labels e) (shape image_np ! 0) (shape image_np ! 1) min_conf
             (boxes, classes, scores) = Inr kept"
    and d': "d' \<in> set kept" and eq: "unlabelled d = unlabelled d'" by blast
  from filter_detections_kept[OF kept d'] obtain i where
    i: "i < length scores" "min_conf < scores ! i"
    and at: "detection_at (labels e) (shape image_np ! 0) (shape image_np ! 1)
               (boxes, classes, scores) i = Inr d'" by blast
  from eq have c: "confidence d = confidence d'" and b: "box d = box d'"
    by (simp_all add: unlabelled_def)
  have conf: "min_conf < confidence d"
    using detection_at_Inr[OF at] i(2) c by simp
  have bs: "1 \<le> box d ! 0" "box d ! 2 \<le> int (shape image_np ! 1)"
    "1 \<le> box d ! 1" "box d ! 3 \<le> int (shape image_np ! 0)"
    using detection_at_bounds[OF at] b by simp_all
  have imp: "(\<forall>i<length scores. min_conf < scores ! i \<longrightarrow>
           (case boxes ! i of (y1, x1, y2, x2) \<Rightarrow>
              x1 \<le> x2 \<and> x1 \<le> 1 \<and> 1 \<le> x2 * of_nat (shape image_np ! 1) \<and>
              y1 \<le> y2 \<and> y1 \<le> 1 \<and> 1 \<le> y2 * of_nat (shape image_np ! 0)))
         \<longrightarrow> box d ! 0 \<le> box d ! 2 \<and> box d ! 1 \<le> box d ! 3"
  proof (rule impI)
    assume wf: "\<forall>i<length scores. min_conf < scores ! i \<longrightarrow>
           (case boxes ! i of (y1, x1, y2, x2) \<Rightarrow>
              x1 \<le> x2 \<and> x1 \<le> 1 \<and> 1 \<le> x2 * of_nat (shape image_np ! 1) \<and>
              y1 \<le> y2 \<and> y1 \<le> 1 \<and> 1 \<le> y2 * of_nat (shape image_np ! 0))"
    from detection_at_ordered[OF at wf[rule_format, OF i]] b
    show "box d ! 0 \<le> box d ! 2 \<and> box d ! 1 \<le> box d ! 3" by simp
  qed
  show ?thesis by (intro conjI conf bs imp)
qed

text \<open>An instance: a centred box on a 320 by 320 input.\<close>

theorem kept_detection_bounds_witness:
  "result_detections
     (tflite_detect_image
        (test_env [1, 320, 320, 3] [''eye''] ([(1 / 4, 1 / 4, 3 / 4, 3 / 4)], [0], [3 / 4]))
        Map.empty ''abc'' ''IMG'' (1 / 2))
     = Inr [\<lparr>object = ''right_eye'', confidence = 3 / 4, box = [80, 80, 240, 240]\<rparr>]
   \<and> (1 / 2 :: rat) < 3 / 4
   \<and> (1 :: int) \<le> 80 \<and> (80 :: int) \<le> 240 \<and> (240 :: int) \<le> 320"
proof -
  let ?e = "test_env [1, 320, 320, 3] [''eye''] ([(1 / 4, 1 / 4, 3 / 4, 3 / 4)], [0], [3 / 4])"
  let ?d = "\<lparr>object = ''right_eye'', confidence = 3 / 4, box = [80, 80, 240, 240]\<rparr>"
  have run: "result_detections (tflite_detect_image ?e Map.empty ''abc'' ''IMG'' (1 / 2))
               = Inr [?d]"
    by (simp add: eval_defs floor_rat_numeral_div)
  have pre: "preprocess_image ?e ''IMG'' (input_shape ?e)
               = Inr \<lparr>shape = [320, 320, 3], pixels = [], drawn = []\<rparr>"
    by (simp add: eval_defs floor_rat_numeral_div)
  have out: "interpreter ?e (input_tensor \<lparr>shape = [320, 320, 3], pixels = [], drawn = []\<rparr>)
               = Inr ([(1 / 4, 1 / 4, 3 / 4, 3 / 4)], [0], [3 / 4])"
    by (simp add: eval_defs floor_rat_numeral_div)
  have d: "?d \<in> set [?d]" by simp
  from kept_detection_bounds[OF run pre out d] run show ?thesis by simp
qed

text \<open>
  C1 as stated fails: a box in normalised coordinates whose lower edge is less than one
  pixel from the top of the image gets \<open>ymin = 1\<close> and \<open>ymax = 0\<close>.
\<close>

theorem kept_detection_bounds_counterexample:
  "result_detections
     (tflite_detect_image
        (test_env [1, 320, 320, 3] [''eye''] ([(0, 1 / 4, 1 / 512, 3 / 4)], [0], [3 / 4]))
        Map.empty ''abc'' ''IMG'' (1 / 2))
     = Inr [\<lparr>object = ''right_eye'', confidence = 3 / 4, box = [80, 1, 240, 0]\<rparr>]
   \<and> \<not> ([80, 1, 240, 0] ! 1 \<le> [80, 1, 240, 0 :: int] ! 3)"
  by (simp add: eval_defs floor_rat_numeral_div)

section \<open>C2, C10 and C8: the relabelling by position\<close>

lemma center_object_update [simp]: "center (d\<lparr>object := s\<rparr>) = center d"
  by (simp add: center_def)

lemma disambiguate_two:
  "disambiguate imW [a, b] =
     (if center a < center b
      then [a\<lparr>object := ''left_eye''\<rparr>, b\<lparr>object := ''right_eye''\<rparr>]
      else [a\<lparr>object := ''right_eye''\<rparr>, b\<lparr>object := ''left_eye''\<rparr>])"
  by (simp add: disambiguate_def Let_def)

lemma disambiguate_one:
  "disambiguate imW [a] =
     (if center a < of_nat imW / 2 then [a\<lparr>object := ''left_eye''\<rparr>]
      else [a\<lparr>object := ''right_eye''\<rparr>])"
  by (simp add: disambiguate_def Let_def)

lemma tflite_detect_image_dets:
  assumes "result_detections (tflite_detect_image e files rnd img min_conf) = Inr dets"
    and "preprocess_image e img (input_shape e) = Inr image_np"
  shows "\<exists>out kept.
      interpreter e (input_tensor image_np) = Inr out
    \<and> filter_detections (labels e) (shape image_np ! 0) (shape image_np ! 1) min_conf out = Inr kept
    \<and> dets = disambiguate (shape image_np ! 1) (py_sorted_reverse confidence kept)"
proof -
  from result_detections_Inr[OF assms(1)] obtain p files' where
    r: "tflite_detect_image e files rnd img min_conf = Inr ((dets, p), files')" by blast
  from tflite_detect_image_Inr[OF r] assms(2) show ?thesis by auto
qed

lemma tflite_detect_image_pre:
  assumes "result_detections (tflite_detect_image e files rnd img min_conf) = Inr dets"
  shows "\<exists>image_np. preprocess_image e img (input_shape e) = Inr image_np"
proof -
  from result_detections_Inr[OF assms(1)] obtain p files' where
    r: "tflite_detect_image e files rnd img min_conf = Inr ((dets, p), files')" by blast
  from tflite_detect_image_Inr[OF r] show ?thesis by auto
qed

text \<open>
  C2. When exactly two detections are returned and their horizontal centres differ, the
  one with the smaller centre is labelled \<open>left_eye\<close> and the other \<open>right_eye\<close>, whatever
  the label table gave them.
\<close>

theorem two_detections_left_right:
  assumes run: "result_detections (tflite_detect_image e files rnd img min_conf) = Inr dets"
    and two: "length dets = 2"
    and ne: "center (dets ! 0) \<noteq> center (dets ! 1)"
  shows "(center (dets ! 0) < center (dets ! 1) \<longrightarrow>
            object (dets ! 0) = ''left_eye'' \<and> object (dets ! 1) = ''right_eye'')
       \<and> (center (dets ! 1) < center (dets ! 0) \<longrightarrow>
            object (dets ! 1) = ''left_eye'' \<and> object (dets ! 0) = ''right_eye'')"
proof -
  from tflite_detect_image_pre[OF run] obtain image_np where
    pre: "preprocess_image e img (input_shape e) = Inr image_np" by blast
  from tflite_detect_image_dets[OF run pre] obtain kept where
    dets: "dets = disambiguate (shape image_np ! 1) (py_sorted_reverse confidence kept)"
    by blast
  from two have "length (py_sorted_reverse confidence kept) = 2"
    by (simp add: dets length_disambiguate)
  then obtain a b where ab: "py_sorted_reverse confidence kept = [a, b]"
    using length2E by blast
  show ?thesis
    unfolding dets ab disambiguate_two by simp
qed

text \<open>An instance, with the centres of the specification's example (10 and 100 in an image
  200 wide); the detection on the right has the higher score and comes first.\<close>

theorem two_detections_left_right_witness:
  "result_detections
     (tflite_detect_image
        (test_env [1, 200, 200, 3] [''eye'', ''iris'']
           ([(1 / 4, 1 / 40, 3 / 4, 3 / 40), (1 / 4, 9 / 20, 3 / 4, 11 / 20)], [1, 0], [3 / 4, 9 / 10]))
        Map.empty ''abc'' ''IMG'' (1 / 2))
     = Inr [\<lparr>object = ''right_eye'', confidence = 9 / 10, box = [90, 50, 110, 150]\<rparr>,
            \<lparr>object = ''left_eye'', confidence = 3 / 4, box = [5, 50, 15, 150]\<rparr>]
   \<and> center \<lparr>object = ''left_eye'', confidence = 3 / 4, box = [5, 50, 15, 150]\<rparr> = 10
   \<and> center \<lparr>object = ''right_eye'', confidence = 9 / 10, box = [90, 50, 110, 150]\<rparr> = 100"
proof -
  let ?e = "test_env [1, 200, 200, 3] [''eye'', ''iris'']
           ([(1 / 4, 1 / 40, 3 / 4, 3 / 40), (1 / 4, 9 / 20, 3 / 4, 11 / 20)], [1, 0], [3 / 4, 9 / 10])"
  let ?ds = "[\<lparr>object = ''right_eye'', confidence = 9 / 10, box = [90, 50, 110, 150]\<rparr>,
            \<lparr>object = ''left_eye'', confidence = 3 / 4, box = [5, 50, 15, 150]\<rparr>]"
  have run: "result_detections (tflite_detect_image ?e Map.empty ''abc'' ''IMG'' (1 / 2)) = Inr ?ds"
    by (simp add: eval_defs floor_rat_numeral_div)
  have two: "length ?ds = 2" by simp
  have ne: "center (?ds ! 0) \<noteq> center (?ds ! 1)" by (simp add: center_def)
  from two_detections_left_right[OF run two ne] run show ?thesis
    by (simp add: center_def)
qed

text \<open>
  C10. When exactly two detections are returned and their horizontal centres are equal,
  the first of the sorted list is labelled \<open>right_eye\<close> and the second \<open>left_eye\<close>. The
  first is the one with the higher confidence; when the confidences are equal too, the two
  keep the order in which the loop found them.
\<close>

theorem two_detections_equal_centers:
  assumes run: "result_detections (tflite_detect_image e files rnd img min_conf) = Inr dets"
    and pre: "preprocess_image e img (input_shape e) = Inr image_np"
    and out: "interpreter e (input_tensor image_np) = Inr out"
    and kept: "filter_detections (labels e) (shape image_np ! 0) (shape image_np ! 1)
                 min_conf out = Inr kept"
    and two: "length dets = 2"
    and eq: "center (dets ! 0) = center (dets ! 1)"
  shows "object (dets ! 0) = ''right_eye'' \<and> object (dets ! 1) = ''left_eye''
     \<and> confidence (dets ! 1) \<le> confidence (dets ! 0)
     \<and> (confidence (dets ! 0) = confidence (dets ! 1) \<longrightarrow>
          map unlabelled dets = map unlabelled kept)"
proof -
  from tflite_detect_image_dets[OF run pre] out kept have
    dets: "dets = disambiguate (shape image_np ! 1) (py_sorted_reverse confidence kept)"
    by simp
  from two have "length (py_sorted_reverse confidence kept) = 2"
    by (simp add: dets length_disambiguate)
  then obtain a b where ab: "py_sorted_reverse confidence kept = [a, b]"
    using length2E by blast
  from eq have c: "center a = center b"
    unfolding dets ab disambiguate_two by (simp split: if_splits)
  have d2: "dets = [a\<lparr>object := ''right_eye''\<rparr>, b\<lparr>object := ''left_eye''\<rparr>]"
    unfolding dets ab disambiguate_two using c by simp
  have "sorted_wrt (\<lambda>x y. confidence y \<le> confidence x) [a, b]"
    using sorted_py_sorted_reverse[of confidence kept] by (simp only: ab)
  then have le: "confidence b \<le> confidence a" by simp
  have tie: "map unlabelled dets = map unlabelled kept" if "confidence a = confidence b"
  proof -
    have "filter (\<lambda>x. confidence x = confidence a) (py_sorted_reverse confidence kept)
          = filter (\<lambda>x. confidence x = confidence a) kept"
      by (rule stable_py_sorted_reverse)
    moreover have "filter (\<lambda>x. confidence x = confidence a) [a, b] = [a, b]"
      using that by simp
    moreover have "set kept = {a, b}"
      using set_py_sorted_reverse[of confidence kept] by (simp add: ab)
    then have "\<forall>x\<in>set kept. confidence x = confidence a" using that by simp
    then have "filter (\<lambda>x. confidence x = confidence a) kept = kept" by simp
    ultimately have "kept = [a, b]" by (simp add: ab)
    then show ?thesis by (simp add: d2 unlabelled_def)
  qed
  show ?thesis using le tie by (simp add: d2)
qed

text \<open>An instance: two boxes over the same columns, one above the other.\<close>

theorem two_detections_equal_centers_witness:
  "result_detections
     (tflite_detect_image
        (test_env [1, 320, 320, 3] [''eye'']
           ([(1 / 8, 1 / 4, 3 / 8, 3 / 4), (5 / 8, 1 / 4, 7 / 8, 3 / 4)], [0, 0], [3 / 4, 9 / 10]))
        Map.empty ''abc'' ''IMG'' (1 / 2))
     = Inr [\<lparr>object = ''right_eye'', confidence = 9 / 10, box = [80, 200, 240, 280]\<rparr>,
            \<lparr>object = ''left_eye'', confidence = 3 / 4, box = [80, 40, 240, 120]\<rparr>]
   \<and> center \<lparr>object = ''right_eye'', confidence = 9 / 10, box = [80, 200, 240, 280]\<rparr>
     = center \<lparr>object = ''left_eye'', confidence = 3 / 4, box = [80, 40, 240, 120]\<rparr>"
proof -
  let ?out = "([(1 / 8, 1 / 4, 3 / 8, 3 / 4), (5 / 8, 1 / 4, 7 / 8, 3 / 4)], [0, 0], [3 / 4, 9 / 10])
                :: raw_output"
  let ?e = "test_env [1, 320, 320, 3] [''eye''] ?out"
  let ?a = "\<lparr>shape = [320, 320, 3], pixels = [], drawn = []\<rparr>"
  let ?ds = "[\<lparr>object = ''right_eye'', confidence = 9 / 10, box = [80, 200, 240, 280]\<rparr>,
            \<lparr>object = ''left_eye'', confidence = 3 / 4, box = [80, 40, 240, 120]\<rparr>]"
  have run: "result_detections (tflite_detect_image ?e Map.empty ''abc'' ''IMG'' (1 / 2)) = Inr ?ds"
    by (simp add: eval_defs floor_rat_numeral_div)
  have pre: "preprocess_image ?e ''IMG'' (input_shape ?e) = Inr ?a" by (simp add: eval_defs floor_rat_numeral_div)
  have out: "interpreter ?e (input_tensor ?a) = Inr ?out" by (simp add: eval_defs floor_rat_numeral_div)
  have kept: "filter_detections (labels ?e) (shape ?a ! 0) (shape ?a ! 1) (1 / 2) ?out
       = Inr [\<lparr>object = ''eye'', confidence = 3 / 4, box = [80, 40, 240, 120]\<rparr>,
              \<lparr>object = ''eye'', confidence = 9 / 10, box = [80, 200, 240, 280]\<rparr>]"
    by (simp add: eval_defs floor_rat_numeral_div)
  have two: "length ?ds = 2" by simp
  have eq: "center (?ds ! 0) = center (?ds ! 1)" by (simp add: center_def)
  from two_detections_equal_centers[OF run pre out kept two eq] run show ?thesis
    by (simp add: center_def)
qed

text \<open>
  C8. When exactly one detection is returned, it is labelled \<open>left_eye\<close> if its horizontal
  centre is strictly less than half the width of the resized image, and \<open>right_eye\<close>
  otherwise.
\<close>

theorem one_detection_left_right:
  assumes run: "result_detections (tflite_detect_image e files rnd img min_conf) = Inr dets"
    and pre: "preprocess_image e img (input_shape e) = Inr image_np"
    and one: "length dets = 1"
  shows "object (dets ! 0) =
     (if center (dets ! 0) < of_nat (shape image_np ! 1) / 2 then ''left_eye'' else ''right_eye'')"
proof -
  from tflite_detect_image_dets[OF run pre] obtain kept where
    dets: "dets = disambiguate (shape image_np ! 1) (py_sorted_reverse confidence kept)"
    by blast
  from one have "length (py_sorted_reverse confidence kept) = Suc 0"
    by (simp add: dets length_disambiguate)
  then obtain a where a: "py_sorted_reverse confidence kept = [a]"
    using length1E by blast
  show ?thesis unfolding dets a disambiguate_one by simp
qed

text \<open>An instance, the specification's example: centre 40 in an image 200 wide.\<close>

theorem one_detection_left_right_witness:
  "result_detections
     (tflite_detect_image
        (test_env [1, 200, 200, 3] [''eye''] ([(1 / 4, 3 / 20, 3 / 4, 1 / 4)], [0], [3 / 4]))
        Map.empty ''abc'' ''IMG'' (1 / 2))
     = Inr [\<lparr>object = ''left_eye'', confidence = 3 / 4, box = [30, 50, 50, 150]\<rparr>]
   \<and> center \<lparr>object = ''left_eye'', confidence = 3 / 4, box = [30, 50, 50, 150]\<rparr> = 40"
proof -
  let ?e = "test_env [1, 200, 200, 3] [''eye''] ([(1 / 4, 3 / 20, 3 / 4, 1 / 4)], [0], [3 / 4])"
  let ?a = "\<lparr>shape = [200, 200, 3], pixels = [], drawn = []\<rparr>"
  let ?ds = "[\<lparr>object = ''left_eye'', confidence = 3 / 4, box = [30, 50, 50, 150]\<rparr>]"
  have run: "result_detections (tflite_detect_image ?e Map.empty ''abc'' ''IMG'' (1 / 2)) = Inr ?ds"
    by (simp add: eval_defs floor_rat_numeral_div)
  have pre: "preprocess_image ?e ''IMG'' (input_shape ?e) = Inr ?a" by (simp add: eval_defs floor_rat_numeral_div)
  have one: "length ?ds = 1" by simp
  from one_detection_left_right[OF run pre one] run show ?thesis
    by (simp add: center_def)
qed

section \<open>C7: the order of the returned detections\<close>

lemma filter_unlabelled:
  "map unlabelled (filter (\<lambda>d. confidence d = k) ds)
     = filter (\<lambda>p. fst p = k) (map unlabelled ds)"
  by (induction ds) (simp_all add: unlabelled_def)

text \<open>
  C7. The list that \<open>tflite_detect_image\<close> returns is in descending order of confidence
  (each detection has a confidence no greater than the one before it), it holds the
  detections that the loop kept, and detections of equal confidence are in the order in
  which the loop found them. Labels aside, since the relabelling follows the sort.
\<close>

theorem detections_sorted_stable:
  assumes run: "result_detections (tflite_detect_image e files rnd img min_conf) = Inr dets"
    and pre: "preprocess_image e img (input_shape e) = Inr image_np"
    and out: "interpreter e (input_tensor image_np) = Inr out"
    and kept: "filter_detections (labels e) (shape image_np ! 0) (shape image_np ! 1)
                 min_conf out = Inr kept"
  shows "sorted_wrt (\<lambda>a b. confidence b \<le> confidence a) dets
     \<and> (\<forall>i. Suc i < length dets \<longrightarrow> confidence (dets ! Suc i) \<le> confidence (dets ! i))
     \<and> mset (map unlabelled dets) = mset (map unlabelled kept)
     \<and> (\<forall>k. map unlabelled (filter (\<lambda>d. confidence d = k) dets)
             = map unlabelled (filter (\<lambda>d. confidence d = k) kept))"
proof -
  let ?s = "py_sorted_reverse confidence kept"
  from tflite_detect_image_dets[OF run pre] out kept have
    dets: "dets = disambiguate (shape image_np ! 1) ?s"
    by simp
  have un: "map unlabelled dets = map unlabelled ?s"
    unfolding dets by (rule disambiguate_unlabelled)
  have conf: "map confidence dets = map confidence ?s"
    unfolding dets by (rule disambiguate_confidence)
  have "sorted_wrt (\<lambda>a b. confidence b \<le> confidence a) ?s"
    by (rule sorted_py_sorted_reverse)
  then have "sorted_wrt (\<lambda>x y. y \<le> x) (map confidence ?s)"
    by (simp add: sorted_wrt_map)
  then have "sorted_wrt (\<lambda>x y. y \<le> x) (map confidence dets)"
    by (simp only: conf)
  then have sorted: "sorted_wrt (\<lambda>a b. confidence b \<le> confidence a) dets"
    by (simp add: sorted_wrt_map)
  have adjacent: "\<forall>i. Suc i < length dets \<longrightarrow> confidence (dets ! Suc i) \<le> confidence (dets ! i)"
    using sorted by (simp add: sorted_wrt_iff_nth_less)
  have "mset (map unlabelled ?s) = mset (map unlabelled kept)"
    by (simp add: mset_py_sorted_reverse)
  then have perm: "mset (map unlabelled dets) = mset (map unlabelled kept)"
    by (simp only: un)
  have stable: "\<forall>k. map unlabelled (filter (\<lambda>d. confidence d = k) dets)
             = map unlabelled (filter (\<lambda>d. confidence d = k) kept)"
  proof
    fix k
    have "map unlabelled (filter (\<lambda>d. confidence d = k) dets)
          = filter (\<lambda>p. fst p = k) (map unlabelled ?s)"
      by (simp only: filter_unlabelled un)
    also have "\<dots> = map unlabelled (filter (\<lambda>d. confidence d = k) ?s)"
      by (simp only: filter_unlabelled)
    also have "\<dots> = map unlabelled (filter (\<lambda>d. confidence d = k) kept)"
      by (simp only: stable_py_sorted_reverse)
    finally show "map unlabelled (filter (\<lambda>d. confidence d = k) dets)
             = map unlabelled (filter (\<lambda>d. confidence d = k) kept)" .
  qed
  show ?thesis by (intro conjI sorted adjacent perm stable)
qed

text \<open>An instance: four boxes over the threshold, the second and the fourth with the
  same score; the fifth is under the threshold.\<close>

theorem detections_sorted_stable_witness:
  "result_detections
     (tflite_detect_image
        (test_env [1, 320, 320, 3] [''eye'']
           ([(1 / 8, 1 / 8, 1 / 4, 1 / 4), (1 / 8, 1 / 2, 1 / 4, 3 / 4),
             (1 / 2, 1 / 8, 3 / 4, 1 / 4), (1 / 2, 1 / 2, 3 / 4, 3 / 4),
             (0, 0, 1, 1)],
            [0, 0, 0, 0, 0], [5 / 8, 3 / 4, 7 / 8, 3 / 4, 1 / 4]))
        Map.empty ''abc'' ''IMG'' (1 / 2))
     = Inr [\<lparr>object = ''eye'', confidence = 7 / 8, box = [40, 160, 80, 240]\<rparr>,
            \<lparr>object = ''eye'', confidence = 3 / 4, box = [160, 40, 240, 80]\<rparr>,
            \<lparr>object = ''eye'', confidence = 3 / 4, box = [160, 160, 240, 240]\<rparr>,
            \<lparr>object = ''eye'', confidence = 5 / 8, box = [40, 40, 80, 80]\<rparr>]
   \<and> sorted_wrt (\<lambda>a b. confidence b \<le> confidence a)
        [\<lparr>object = ''eye'', confidence = 7 / 8, box = [40, 160, 80, 240]\<rparr>,
         \<lparr>object = ''eye'', confidence = 3 / 4, box = [160, 40, 240, 80]\<rparr>,
         \<lparr>object = ''eye'', confidence = 3 / 4, box = [160, 160, 240, 240]\<rparr>,
         \<lparr>object = ''eye'', confidence = 5 / 8, box = [40, 40, 80, 80]\<rparr>]"
proof -
  let ?out = "([(1 / 8, 1 / 8, 1 / 4, 1 / 4), (1 / 8, 1 / 2, 1 / 4, 3 / 4),
             (1 / 2, 1 / 8, 3 / 4, 1 / 4), (1 / 2, 1 / 2, 3 / 4, 3 / 4),
             (0, 0, 1, 1)],
            [0, 0, 0, 0, 0], [5 / 8, 3 / 4, 7 / 8, 3 / 4, 1 / 4]) :: raw_output"
  let ?e = "test_env [1, 320, 320, 3] [''eye''] ?out"
  let ?a = "\<lparr>shape = [320, 320, 3], pixels = [], drawn = []\<rparr>"
  let ?ds = "[\<lparr>object = ''eye'', confidence = 7 / 8, box = [40, 160, 80, 240]\<rparr>,
            \<lparr>object = ''eye'', confidence = 3 / 4, box = [160, 40, 240, 80]\<rparr>,
            \<lparr>object = ''eye'', confidence = 3 / 4, box = [160, 160, 240, 240]\<rparr>,
            \<lparr>object = ''eye'', confidence = 5 / 8, box = [40, 40, 80, 80]\<rparr>]"
  have run: "result_detections (tflite_detect_image ?e Map.empty ''abc'' ''IMG'' (1 / 2)) = Inr ?ds"
    by (simp add: eval_defs floor_rat_numeral_div)
  have pre: "preprocess_image ?e ''IMG'' (input_shape ?e) = Inr ?a" by (simp add: eval_defs floor_rat_numeral_div)
  have out: "interpreter ?e (input_tensor ?a) = Inr ?out" by (simp add: eval_defs floor_rat_numeral_div)
  have kept: "filter_detections (labels ?e) (shape ?a ! 0) (shape ?a ! 1) (1 / 2) ?out
       = Inr [\<lparr>object = ''eye'', confidence = 5 / 8, box = [40, 40, 80, 80]\<rparr>,
              \<lparr>object = ''eye'', confidence = 3 / 4, box = [160, 40, 240, 80]\<rparr>,
              \<lparr>object = ''eye'', confidence = 7 / 8, box = [40, 160, 80, 240]\<rparr>,
              \<lparr>object = ''eye'', confidence = 3 / 4, box = [160, 160, 240, 240]\<rparr>]"
    by (simp add: eval_defs floor_rat_numeral_div)
  from detections_sorted_stable[OF run pre out kept]
  have "sorted_wrt (\<lambda>a b. confidence b \<le> confidence a) ?ds" by (rule conjunct1)
  with run show ?thesis by (rule conjI)
qed

section \<open>C3, C4 and C6: the shape of the input, the image hand-off and undecodable images\<close>

text \<open>
  C3. \<open>preprocess_image\<close> hands the model's height and width to \<open>resize\<close> in the order
  (height, width), where PIL reads (width, height): for a model whose input is 300 high
  and 400 wide the array has shape (400, 300, 3), not the declared (300, 400, 3).
\<close>

theorem preprocess_image_swaps_height_width:
  "map_sum id shape
     (preprocess_image (test_env [1, 300, 400, 3] [''eye''] ([], [], [])) ''IMG'' [1, 300, 400, 3])
     = Inr [400, 300, 3]"
  by (simp add: eval_defs)

text \<open>
  C4. A file that is in the temporary directory is served by the first \<open>get_image\<close> with
  its content and the type image/jpeg, and is gone afterwards; every later \<open>get_image\<close> of
  the same name, with nothing else touching the directory, answers 404 with the error
  \<open>File not found\<close> and leaves the directory as it is.
\<close>

theorem get_image_single_use:
  assumes "files (os_path_join (tempdir e) filename) = Some content"
  shows "fst (get_image e files filename) = (File_body content ''image/jpeg'', 200)
     \<and> snd (get_image e files filename) (os_path_join (tempdir e) filename) = None
     \<and> (\<forall>n. get_image e (((\<lambda>f. snd (get_image e f filename)) ^^ Suc n) files) filename
            = ((Error_json ''File not found'', 404),
               files(os_path_join (tempdir e) filename := None)))"
proof -
  let ?p = "os_path_join (tempdir e) filename"
  let ?next = "\<lambda>f. snd (get_image e f filename)"
  have first: "get_image e files filename
                 = ((File_body content ''image/jpeg'', 200), files(?p := None))"
    using assms by (simp add: get_image_def Let_def)
  have gone: "get_image e (files(?p := None)) filename
                 = ((Error_json ''File not found'', 404), files(?p := None))"
    by (simp add: get_image_def Let_def)
  have iter: "(?next ^^ Suc n) files = files(?p := None)" for n
  proof (induction n)
    case 0
    show ?case using first by simp
  next
    case (Suc n)
    have "(?next ^^ Suc (Suc n)) files = ?next ((?next ^^ Suc n) files)" by simp
    also have "\<dots> = ?next (files(?p := None))" by (simp only: Suc)
    also have "\<dots> = files(?p := None)" by (simp only: gone snd_conv)
    finally show ?case .
  qed
  have later: "\<forall>n. get_image e ((?next ^^ Suc n) files) filename
            = ((Error_json ''File not found'', 404), files(?p := None))"
    by (simp only: iter gone) simp
  from first have a: "fst (get_image e files filename) = (File_body content ''image/jpeg'', 200)"
    by simp
  from first have b: "snd (get_image e files filename) ?p = None" by simp
  show ?thesis by (intro conjI a b later)
qed

text \<open>An instance: the file that a POST to \<open>/detect\<close> leaves behind, fetched twice by
  the name at the end of the returned URL.\<close>

theorem get_image_single_use_witness:
  "fst (detect (test_env [1, 320, 320, 3] [''eye''] ([(1 / 4, 1 / 4, 3 / 4, 3 / 4)], [0], [3 / 4]))
          Map.empty ''abc'' \<lparr>json = [''image'' \<mapsto> ''SU1H''], host = ''localhost:5000''\<rparr>)
     = Inr (Detect_json
              [\<lparr>object = ''right_eye'', confidence = 3 / 4, box = [80, 80, 240, 240]\<rparr>]
              ''http://localhost:5000/image/tmpabc.jpg'', 200)
   \<and> fst (get_image (test_env [1, 320, 320, 3] [''eye''] ([(1 / 4, 1 / 4, 3 / 4, 3 / 4)], [0], [3 / 4]))
          (snd (detect (test_env [1, 320, 320, 3] [''eye''] ([(1 / 4, 1 / 4, 3 / 4, 3 / 4)], [0], [3 / 4]))
                  Map.empty ''abc'' \<lparr>json = [''image'' \<mapsto> ''SU1H''], host = ''localhost:5000''\<rparr>))
          ''tmpabc.jpg'')
     = (File_body ''right_eye: 75%'' ''image/jpeg'', 200)
   \<and> fst (get_image (test_env [1, 320, 320, 3] [''eye''] ([(1 / 4, 1 / 4, 3 / 4, 3 / 4)], [0], [3 / 4]))
          (snd (get_image (test_env [1, 320, 320, 3] [''eye''] ([(1 / 4, 1 / 4, 3 / 4, 3 / 4)], [0], [3 / 4]))
             (snd (detect (test_env [1, 320, 320, 3] [''eye''] ([(1 / 4, 1 / 4, 3 / 4, 3 / 4)], [0], [3 / 4]))
                  Map.empty ''abc'' \<lparr>json = [''image'' \<mapsto> ''SU1H''], host = ''localhost:5000''\<rparr>))
             ''tmpabc.jpg''))
          ''tmpabc.jpg'')
     = (Error_json ''File not found'', 404)"
proof -
  let ?e = "test_env [1, 320, 320, 3] [''eye''] ([(1 / 4, 1 / 4, 3 / 4, 3 / 4)], [0], [3 / 4])"
  let ?req = "\<lparr>json = [''image'' \<mapsto> ''SU1H''], host = ''localhost:5000''\<rparr>"
  let ?files = "snd (detect ?e Map.empty ''abc'' ?req)"
  have post: "fst (detect ?e Map.empty ''abc'' ?req)
     = Inr (Detect_json
              [\<lparr>object = ''right_eye'', confidence = 3 / 4, box = [80, 80, 240, 240]\<rparr>]
              ''http://localhost:5000/image/tmpabc.jpg'', 200)"
    by (simp add: detect_def os_path_basename_def str_int_def str_nat.simps eval_defs
        floor_rat_numeral_div)
  have stored: "?files (os_path_join (tempdir ?e) ''tmpabc.jpg'') = Some ''right_eye: 75%''"
    by (simp add: detect_def os_path_basename_def str_int_def str_nat.simps eval_defs
        floor_rat_numeral_div)
  note th = get_image_single_use[of "?files" "?e" "''tmpabc.jpg''" "''right_eye: 75%''", OF stored]
  from th have first: "fst (get_image ?e ?files ''tmpabc.jpg'')
                         = (File_body ''right_eye: 75%'' ''image/jpeg'', 200)"
    by (rule conjunct1)
  from th have "get_image ?e (((\<lambda>f. snd (get_image ?e f ''tmpabc.jpg'')) ^^ Suc 0) ?files) ''tmpabc.jpg''
            = ((Error_json ''File not found'', 404),
               ?files(os_path_join (tempdir ?e) ''tmpabc.jpg'' := None))"
    by blast
  then have second: "fst (get_image ?e (snd (get_image ?e ?files ''tmpabc.jpg'')) ''tmpabc.jpg'')
     = (Error_json ''File not found'', 404)"
    by simp
  show ?thesis by (intro conjI post first second)
qed

text \<open>
  C6. A request whose \<open>image\<close> field decodes to bytes that are not empty and that PIL
  cannot read makes \<open>preprocess_image\<close> raise; nothing in \<open>detect\<close> catches the exception,
  so it leaves the view function, the client gets status 500 and no file is written. The
  two checks before it in \<open>detect\<close> answer a missing and an empty image with a JSON error
  and status 400; this case has no such answer.
\<close>

theorem detect_undecodable_image:
  assumes "json req ''image'' = Some encoded"
    and "b64decode e encoded = Inr image_data"
    and "image_data \<noteq> []"
    and "image_open e image_data = None"
  shows "detect e files rnd req = (Inl UnidentifiedImageError, files)
     \<and> http_status (fst (detect e files rnd req)) = 500"
  using assms
  by (simp add: detect_def tflite_detect_image_def preprocess_image_def http_status_def Let_def)

text \<open>An instance: the image field holds the base64 text of the five bytes \<open>hello\<close>.\<close>

theorem detect_undecodable_image_witness:
  "detect (test_env [1, 320, 320, 3] [''eye''] ([], [], [])) Map.empty ''abc''
       \<lparr>json = [''image'' \<mapsto> ''aGVsbG8=''], host = ''localhost:5000''\<rparr>
     = (Inl UnidentifiedImageError, Map.empty)
   \<and> http_status (fst (detect (test_env [1, 320, 320, 3] [''eye''] ([], [], [])) Map.empty ''abc''
       \<lparr>json = [''image'' \<mapsto> ''aGVsbG8=''], host = ''localhost:5000''\<rparr>)) = 500"
proof -
  let ?e = "test_env [1, 320, 320, 3] [''eye''] ([], [], [])"
  let ?req = "\<lparr>json = [''image'' \<mapsto> ''aGVsbG8=''], host = ''localhost:5000''\<rparr>"
  have a: "json ?req ''image'' = Some ''aGVsbG8=''" by simp
  have b: "b64decode ?e ''aGVsbG8='' = Inr ''hello''" by (simp add: test_env_def)
  have c: "''hello'' \<noteq> []" by simp
  have d: "image_open ?e ''hello'' = None" by (simp add: test_env_def)
  show ?thesis by (rule detect_undecodable_image[OF a b c d])
qed

section \<open>C5: label resolution\<close>

lemma detection_at_label:
  assumes "i < length boxes" "i < length classes"
    and "- int (length lbls) \<le> py_int (classes ! i)" "py_int (classes ! i) < int (length lbls)"
  shows "\<exists>d. detection_at lbls imH imW (boxes, classes, scores) i = Inr d
     \<and> object d = lbls ! nat (if py_int (classes ! i) < 0
                                then int (length lbls) + py_int (classes ! i)
                                else py_int (classes ! i))"
  using assms
  by (cases "boxes ! i")
     (simp add: detection_at_def np_get_def py_get_def Let_def)

lemma detection_at_label_fails:
  assumes "i < length boxes" "i < length classes"
    and "int (length lbls) \<le> py_int (classes ! i) \<or> py_int (classes ! i) < - int (length lbls)"
  shows "detection_at lbls imH imW (boxes, classes, scores) i = Inl IndexError"
  using assms
  by (cases "boxes ! i")
     (auto simp: detection_at_def np_get_def py_get_def Let_def)

lemma ceiling_neg_one_rat: "\<lceil>- 1 :: rat\<rceil> = - 1"
  by (rule ceiling_unique) simp_all

lemma list_all2_map_eq:
  "list_all2 (\<lambda>x y. g y = f x) xs ys \<Longrightarrow> map g ys = map f xs"
  by (induction rule: list_all2_induct) auto

text \<open>
  C5 (as amended). With boxes, classes and scores of one length, let \<open>k\<close> be
  \<open>int(classes[i])\<close> and \<open>n\<close> the length of the label table. If some index above the
  threshold has \<open>k \<ge> n\<close> or \<open>k < -n\<close>, \<open>tflite_detect_image\<close> raises IndexError. If every
  index above the threshold has \<open>-n \<le> k < n\<close>, the loop keeps a detection for each of
  them, labelled \<open>labels[k]\<close> for \<open>k \<ge> 0\<close> and \<open>labels[n + k]\<close> for \<open>k < 0\<close>.
\<close>

theorem label_resolution:
  assumes pre: "preprocess_image e img (input_shape e) = Inr image_np"
    and out: "interpreter e (input_tensor image_np) = Inr (boxes, classes, scores)"
    and lb: "length boxes = length scores"
    and lc: "length classes = length scores"
    and n: "n = int (length (labels e))"
  shows "((\<exists>i<length scores. min_conf < scores ! i \<and>
             (n \<le> py_int (classes ! i) \<or> py_int (classes ! i) < - n))
          \<longrightarrow> tflite_detect_image e files rnd img min_conf = Inl IndexError)
     \<and> ((\<forall>i<length scores. min_conf < scores ! i \<longrightarrow>
             - n \<le> py_int (classes ! i) \<and> py_int (classes ! i) < n)
          \<longrightarrow> (\<exists>kept.
                 filter_detections (labels e) (shape image_np ! 0) (shape image_np ! 1) min_conf
                   (boxes, classes, scores) = Inr kept
               \<and> map object kept
                   = map (\<lambda>i. labels e ! nat (if py_int (classes ! i) < 0
                                                then n + py_int (classes ! i)
                                                else py_int (classes ! i)))
                       (filter (\<lambda>i. min_conf < scores ! i) [0..<length scores])))"
proof (intro conjI impI)
  let ?H = "shape image_np ! 0" and ?W = "shape image_np ! 1"
  let ?out = "(boxes, classes, scores)"
  assume "\<exists>i<length scores. min_conf < scores ! i \<and>
             (n \<le> py_int (classes ! i) \<or> py_int (classes ! i) < - n)"
  then obtain i where i: "i < length scores" "min_conf < scores ! i"
    and bad: "n \<le> py_int (classes ! i) \<or> py_int (classes ! i) < - n" by blast
  have at: "detection_at (labels e) ?H ?W ?out i = Inl IndexError"
    using i(1) lb lc bad n by (intro detection_at_label_fails) simp_all
  have mem: "i \<in> set [0..<length scores]" using i(1) by simp
  have sc: "min_conf < snd (snd ?out) ! i" using i(2) by simp
  have "filter_detections (labels e) ?H ?W min_conf ?out = Inl IndexError"
    unfolding filter_detections_def
    using collect_fails[OF _ sc at, of "[0..<length (snd (snd ?out))]"] mem by simp
  then show "tflite_detect_image e files rnd img min_conf = Inl IndexError"
    by (simp add: tflite_detect_image_def pre out Let_def)
next
  let ?H = "shape image_np ! 0" and ?W = "shape image_np ! 1"
  let ?out = "(boxes, classes, scores)"
  let ?idx = "filter (\<lambda>i. min_conf < scores ! i) [0..<length scores]"
  let ?lab = "\<lambda>i. labels e ! nat (if py_int (classes ! i) < 0
                                                then n + py_int (classes ! i)
                                                else py_int (classes ! i))"
  assume ok: "\<forall>i<length scores. min_conf < scores ! i \<longrightarrow>
             - n \<le> py_int (classes ! i) \<and> py_int (classes ! i) < n"
  have each: "\<exists>d. detection_at (labels e) ?H ?W ?out i = Inr d \<and> object d = ?lab i"
    if "i < length scores" "min_conf < scores ! i" for i
  proof -
    from ok that have r: "- int (length (labels e)) \<le> py_int (classes ! i)"
      "py_int (classes ! i) < int (length (labels e))" using n by auto
    from that(1) lb lc have "i < length boxes" "i < length classes" by simp_all
    from detection_at_label[OF this r, of "?H" "?W" scores] show ?thesis
      unfolding n .
  qed
  have "\<forall>i\<in>set [0..<length (snd (snd ?out))]. min_conf < snd (snd ?out) ! i \<longrightarrow>
          (\<exists>d. detection_at (labels e) ?H ?W ?out i = Inr d)"
  proof (intro ballI impI)
    fix i
    assume "i \<in> set [0..<length (snd (snd ?out))]" "min_conf < snd (snd ?out) ! i"
    then have "i < length scores" "min_conf < scores ! i" by simp_all
    from each[OF this] show "\<exists>d. detection_at (labels e) ?H ?W ?out i = Inr d" by blast
  qed
  from collect_succeeds[OF this] obtain kept where
    kept: "filter_detections (labels e) ?H ?W min_conf ?out = Inr kept"
    unfolding filter_detections_def by blast
  from collect_Inr[OF kept[unfolded filter_detections_def]]
  have all2: "list_all2 (\<lambda>i d. detection_at (labels e) ?H ?W ?out i = Inr d) ?idx kept"
    by simp
  have "list_all2 (\<lambda>i d. object d = ?lab i) ?idx kept"
  proof (rule list.rel_mono_strong[OF all2])
    fix i d
    assume i: "i \<in> set ?idx" and d: "detection_at (labels e) ?H ?W ?out i = Inr d"
    from i have "i < length scores" "min_conf < scores ! i" by simp_all
    from each[OF this] d show "object d = ?lab i" by auto
  qed
  then have "map object kept = map ?lab ?idx" by (rule list_all2_map_eq)
  with kept show "\<exists>kept.
                 filter_detections (labels e) (shape image_np ! 0) (shape image_np ! 1) min_conf
                   (boxes, classes, scores) = Inr kept
               \<and> map object kept = map ?lab ?idx" by blast
qed

text \<open>Two instances, with a label table of two lines: classes \<open>-1, 1, 0\<close> resolve to the
  last, the last and the first label; class \<open>2\<close> raises.\<close>

theorem label_resolution_witness:
  "map_sum id (map object)
     (filter_detections [''eye'', ''iris''] 320 320 (1 / 2)
        ([(1 / 8, 1 / 8, 1 / 4, 1 / 4), (1 / 8, 1 / 2, 1 / 4, 3 / 4), (1 / 2, 1 / 8, 3 / 4, 1 / 4)],
         [- 1, 1, 0], [3 / 4, 5 / 8, 7 / 8]))
     = Inr [''iris'', ''iris'', ''eye'']
   \<and> tflite_detect_image
       (test_env [1, 320, 320, 3] [''eye'', ''iris''] ([(1 / 4, 1 / 4, 3 / 4, 3 / 4)], [2], [3 / 4]))
       Map.empty ''abc'' ''IMG'' (1 / 2)
     = Inl IndexError"
proof -
  let ?a = "\<lparr>shape = [320, 320, 3], pixels = [], drawn = []\<rparr>"
  let ?out1 = "([(1 / 8, 1 / 8, 1 / 4, 1 / 4), (1 / 8, 1 / 2, 1 / 4, 3 / 4), (1 / 2, 1 / 8, 3 / 4, 1 / 4)],
         [- 1, 1, 0], [3 / 4, 5 / 8, 7 / 8]) :: raw_output"
  let ?e1 = "test_env [1, 320, 320, 3] [''eye'', ''iris''] ?out1"
  have pre1: "preprocess_image ?e1 ''IMG'' (input_shape ?e1) = Inr ?a"
    by (simp add: eval_defs)
  have out1: "interpreter ?e1 (input_tensor ?a) = Inr ?out1"
    by (simp add: eval_defs)
  have n1: "(2::int) = int (length (labels ?e1))" by (simp add: test_env_def)
  have ok1: "\<forall>i<length [3 / 4, 5 / 8, 7 / 8 :: rat]. 1 / 2 < [3 / 4, 5 / 8, 7 / 8 :: rat] ! i \<longrightarrow>
             - 2 \<le> py_int ([- 1, 1, 0] ! i) \<and> py_int ([- 1, 1, 0] ! i) < 2"
    by (simp add: py_int_def nth_Cons split: nat.split)
  from label_resolution[OF pre1 out1 _ _ n1, of "1 / 2" Map.empty "''abc''"] ok1
  obtain kept where
    "filter_detections (labels ?e1) (shape ?a ! 0) (shape ?a ! 1) (1 / 2) ?out1 = Inr kept"
    "map object kept
       = map (\<lambda>i. labels ?e1 ! nat (if py_int ([- 1, 1, 0] ! i) < 0
                                        then 2 + py_int ([- 1, 1, 0] ! i)
                                        else py_int ([- 1, 1, 0] ! i)))
           (filter (\<lambda>i. 1 / 2 < [3 / 4, 5 / 8, 7 / 8 :: rat] ! i) [0..<length [3 / 4, 5 / 8, 7 / 8 :: rat]])"
    by auto
  then have first: "map_sum id (map object)
     (filter_detections [''eye'', ''iris''] 320 320 (1 / 2) ?out1) = Inr [''iris'', ''iris'', ''eye'']"
    by (simp add: test_env_def py_int_def upt_rec ceiling_neg_one_rat)
  let ?out2 = "([(1 / 4, 1 / 4, 3 / 4, 3 / 4)], [2], [3 / 4]) :: raw_output"
  let ?e2 = "test_env [1, 320, 320, 3] [''eye'', ''iris''] ?out2"
  have pre2: "preprocess_image ?e2 ''IMG'' (input_shape ?e2) = Inr ?a"
    by (simp add: eval_defs)
  have out2: "interpreter ?e2 (input_tensor ?a) = Inr ?out2"
    by (simp add: eval_defs)
  have n2: "(2::int) = int (length (labels ?e2))" by (simp add: test_env_def)
  have bad2: "\<exists>i<length [3 / 4 :: rat]. 1 / 2 < [3 / 4 :: rat] ! i \<and>
             (2 \<le> py_int ([2] ! i) \<or> py_int ([2] ! i) < - 2)"
    by (simp add: py_int_def)
  from label_resolution[OF pre2 out2 _ _ n2, of "1 / 2" Map.empty "''abc''"] bad2
  have second: "tflite_detect_image ?e2 Map.empty ''abc'' ''IMG'' (1 / 2) = Inl IndexError"
    by (simp add: py_int_def)
  show ?thesis by (intro conjI first second)
qed

text \<open>
  C5 as stated fails for a negative index: with two labels, three detections of class
  \<open>-1\<close> are all given the last label and nothing is raised.
\<close>

theorem label_resolution_counterexample:
  "result_detections
     (tflite_detect_image
        (test_env [1, 320, 320, 3] [''eye'', ''iris'']
           ([(1 / 8, 1 / 8, 1 / 4, 1 / 4), (1 / 8, 1 / 2, 1 / 4, 3 / 4), (1 / 2, 1 / 8, 3 / 4, 1 / 4)],
            [- 1, - 1, - 1], [7 / 8, 3 / 4, 5 / 8]))
        Map.empty ''abc'' ''IMG'' (1 / 2))
     = Inr [\<lparr>object = ''iris'', confidence = 7 / 8, box = [40, 40, 80, 80]\<rparr>,
            \<lparr>object = ''iris'', confidence = 3 / 4, box = [160, 40, 240, 80]\<rparr>,
            \<lparr>object = ''iris'', confidence = 5 / 8, box = [40, 160, 80, 240]\<rparr>]"
  by (simp add: eval_defs floor_rat_numeral_div ceiling_neg_one_rat)

section \<open>C9: the text drawn for a detection\<close>

lemma drawn_draw_detections:
  "drawn (draw_detections ds a)
     = drawn a @ concat (map (\<lambda>d. [Rectangle (box d ! 0, box d ! 1) (box d ! 2, box d ! 3),
                                      PutText (label_text d) (box d ! 0, box d ! 1 - 10)]) ds)"
  unfolding draw_detections_def
  by (induction ds arbitrary: a) (simp_all add: draw_def Let_def)

lemma preprocess_image_drawn:
  "preprocess_image e img shp = Inr image_np \<Longrightarrow> drawn image_np = []"
  by (auto simp: preprocess_image_def np_array_def Let_def split: option.splits)

text \<open>
  C9 (as amended). The file that \<open>tflite_detect_image\<close> writes holds an image on which, for
  each returned detection in turn, its rectangle and then the text
  \<open><label>: <p>%\<close> have been drawn, ten pixels above the corner \<open>(xmin, ymin)\<close>, where \<open>p\<close>
  is \<open>confidence * 100\<close> truncated towards zero: the floor for a confidence that is not
  negative.
\<close>

theorem drawn_label_truncates:
  assumes run: "result_detections (tflite_detect_image e files rnd img min_conf) = Inr dets"
  shows "\<exists>annotated.
      result_file (tflite_detect_image e files rnd img min_conf) = Some (imencode e annotated)
    \<and> drawn annotated
       = concat (map (\<lambda>d.
           [Rectangle (box d ! 0, box d ! 1) (box d ! 2, box d ! 3),
            PutText (object d @ '': ''
                       @ str_int (if 0 \<le> confidence d then \<lfloor>confidence d * 100\<rfloor>
                                  else \<lceil>confidence d * 100\<rceil>)
                       @ ''%'')
                    (box d ! 0, box d ! 1 - 10)]) dets)"
proof -
  from result_detections_Inr[OF run] obtain p files' where
    r: "tflite_detect_image e files rnd img min_conf = Inr ((dets, p), files')" by blast
  from tflite_detect_image_Inr[OF r] obtain image_np where
    pre: "preprocess_image e img (input_shape e) = Inr image_np"
    and files': "files' = files(p \<mapsto> imencode e (draw_detections dets image_np))"
    by blast
  have written: "result_file (tflite_detect_image e files rnd img min_conf)
                = Some (imencode e (draw_detections dets image_np))"
    by (simp add: r result_file_def files')
  have label: "label_text d = object d @ '': ''
                       @ str_int (if 0 \<le> confidence d then \<lfloor>confidence d * 100\<rfloor>
                                  else \<lceil>confidence d * 100\<rceil>)
                       @ ''%''" for d
  proof -
    have "0 \<le> confidence d * 100 \<longleftrightarrow> 0 \<le> confidence d" by simp
    then show ?thesis by (simp add: label_text_def py_int_def)
  qed
  have "drawn (draw_detections dets image_np)
       = concat (map (\<lambda>d. [Rectangle (box d ! 0, box d ! 1) (box d ! 2, box d ! 3),
                            PutText (label_text d) (box d ! 0, box d ! 1 - 10)]) dets)"
    by (simp add: drawn_draw_detections preprocess_image_drawn[OF pre])
  then have "drawn (draw_detections dets image_np)
       = concat (map (\<lambda>d.
           [Rectangle (box d ! 0, box d ! 1) (box d ! 2, box d ! 3),
            PutText (object d @ '': ''
                       @ str_int (if 0 \<le> confidence d then \<lfloor>confidence d * 100\<rfloor>
                                  else \<lceil>confidence d * 100\<rceil>)
                       @ ''%'')
                    (box d ! 0, box d ! 1 - 10)]) dets)"
    by (simp only: label)
  with written show ?thesis by blast
qed

text \<open>An instance: a confidence of 1023/1024, which is 99.90234375 per cent, is drawn
  as 99%. The encoder of this installation writes the drawn texts.\<close>

theorem drawn_label_truncates_witness:
  "result_detections
     (tflite_detect_image
        (test_env [1, 320, 320, 3] [''eye''] ([(1 / 4, 1 / 8, 3 / 4, 3 / 8)], [0], [1023 / 1024]))
        Map.empty ''abc'' ''IMG'' (1 / 2))
     = Inr [\<lparr>object = ''left_eye'', confidence = 1023 / 1024, box = [40, 80, 120, 240]\<rparr>]
   \<and> result_file
       (tflite_detect_image
          (test_env [1, 320, 320, 3] [''eye''] ([(1 / 4, 1 / 8, 3 / 4, 3 / 8)], [0], [1023 / 1024]))
          Map.empty ''abc'' ''IMG'' (1 / 2))
     = Some ''left_eye: 99%''"
proof -
  let ?e = "test_env [1, 320, 320, 3] [''eye''] ([(1 / 4, 1 / 8, 3 / 4, 3 / 8)], [0], [1023 / 1024])"
  let ?d = "\<lparr>object = ''left_eye'', confidence = 1023 / 1024, box = [40, 80, 120, 240]\<rparr>"
  have run: "result_detections (tflite_detect_image ?e Map.empty ''abc'' ''IMG'' (1 / 2))
               = Inr [?d]"
    by (simp add: eval_defs floor_rat_numeral_div)
  from drawn_label_truncates[OF run] obtain annotated where
    written: "result_file (tflite_detect_image ?e Map.empty ''abc'' ''IMG'' (1 / 2))
             = Some (imencode ?e annotated)"
    and drawn: "drawn annotated
       = [Rectangle (40, 80) (120, 240),
          PutText (''left_eye: '' @ str_int \<lfloor>1023 / 1024 * 100 :: rat\<rfloor> @ ''%'') (40, 70)]"
    by auto
  have "imencode ?e annotated = ''left_eye: 99%''"
    by (simp add: test_env_def drawn floor_rat_numeral_div str_int_def str_nat.simps)
  with written have "result_file (tflite_detect_image ?e Map.empty ''abc'' ''IMG'' (1 / 2))
             = Some ''left_eye: 99%''" by simp
  with run show ?thesis by (rule conjI)
qed

text \<open>
  C9 as stated fails: for the same detection the code draws 99%, where the percentage
  rounded to the nearest integer is 100%.
\<close>

theorem drawn_label_truncates_counterexample:
  "result_file
       (tflite_detect_image
          (test_env [1, 320, 320, 3] [''eye''] ([(1 / 4, 1 / 8, 3 / 4, 3 / 8)], [0], [1023 / 1024]))
          Map.empty ''abc'' ''IMG'' (1 / 2))
     = Some ''left_eye: 99%''
   \<and> spec_label_text \<lparr>object = ''left_eye'', confidence = 1023 / 1024, box = [40, 80, 120, 240]\<rparr>
     = ''left_eye: 100%''"
  by (simp add: result_file_def spec_label_text_def round_def str_int_def str_nat.simps
      eval_defs floor_rat_numeral_div)

end
